theory Spec2Isabelle
  imports Main "HOL-Library.Word"
begin

section \<open>Values shared by the whole package\<close>

text \<open>
  The package \<open>goph\<close> (\<open>client.go\<close>) is a wrapper around an SSH transport, an SFTP
  client and the local file system. Those three collaborators are not part of the
  package; they are modelled below as primitives acting on an explicit \<open>world\<close>, and
  whether a primitive fails is read from an \<open>env\<close> record. The functions of
  \<open>client.go\<close> are translated statement by statement on top of the primitives.
\<close>

type_synonym byte = "8 word"
type_synonym bytes = "byte list"
type_synonym path = string

text \<open>
  Go error values. The constructor records which collaborator produced the error; the
  package itself never builds an error, it only hands on the ones it receives.
\<close>

datatype error =
    KnownHostsError string
  | DialError string
  | SessionError string
  | ExitError nat
  | RunError string
  | LocalIOError string
  | ChannelError string
  | RemoteIOError string
  | DurabilityError string

section \<open>Configuration\<close>

text \<open>
  \<open>time.Duration\<close> is a 64-bit count of nanoseconds, Go's \<open>uint\<close> is taken at 64 bits.
  \<open>ssh.HostKeyCallback\<close> is a function value that may be nil: \<open>None\<close> is nil.
  The type \<open>Auth\<close> is declared in another file of the package and is a type parameter.
\<close>

type_synonym Duration = "64 word"
type_synonym HostKeyCallback = "string \<Rightarrow> string \<Rightarrow> bytes \<Rightarrow> error option"

definition Second :: Duration where
  "Second = 1000000000"

record 'auth ClientConfig =
  User :: string
  ClientAuth :: 'auth
  Timeout :: Duration
  HostKeyCallback :: "HostKeyCallback option"

record 'auth Config =
  Auth :: 'auth
  Protocol :: string
  Addr :: string
  Port :: "64 word"
  ClientConfig :: "'auth ClientConfig"

text \<open>The package-level variable \<open>DefaultTimeout\<close> is mutable: it lives in a record of globals.\<close>

record globals =
  DefaultTimeout :: Duration

definition initial_globals :: globals where
  "initial_globals = \<lparr>DefaultTimeout = 20 * Second\<rparr>"

text \<open>
  \<open>NewConfig\<close>. The call \<open>DefaultKnownHosts()\<close> is a function of the package that lives in
  another file; its result, the Go pair \<open>(callback, err)\<close>, is the parameter \<open>known_hosts\<close>.
\<close>

definition NewConfig ::
  "globals \<Rightarrow> HostKeyCallback option \<times> error option \<Rightarrow> string \<Rightarrow> string \<Rightarrow> 64 word \<Rightarrow> 'auth
     \<Rightarrow> error + 'auth Config" where
  "NewConfig g known_hosts user addr port auth =
     (case known_hosts of (callback, err) \<Rightarrow>
        (case err of
           Some e \<Rightarrow> Inl e
         | None \<Rightarrow>
             Inr \<lparr>Auth = auth,
                  Protocol = ''tcp'',
                  Addr = addr,
                  Port = 22,
                  ClientConfig = \<lparr>User = user,
                                  ClientAuth = auth,
                                  Timeout = DefaultTimeout g,
                                  HostKeyCallback = callback\<rparr>\<rparr>))"

text \<open>
  \<open>fmt.Sprint\<close> of an unsigned integer prints it in decimal, most significant digit first;
  \<open>net.JoinHostPort\<close> brackets a host that contains a colon.
\<close>

definition digit_char :: "nat \<Rightarrow> char" where
  "digit_char d = ''0123456789'' ! d"

function Sprint_nat :: "nat \<Rightarrow> string" where
  "Sprint_nat n = (if n < 10 then [digit_char n] else Sprint_nat (n div 10) @ [digit_char (n mod 10)])"
  by pat_completeness auto
termination
  by (relation "measure id") auto

declare Sprint_nat.simps [simp del]

definition Sprint :: "64 word \<Rightarrow> string" where
  "Sprint p = Sprint_nat (unat p)"

definition JoinHostPort :: "string \<Rightarrow> string \<Rightarrow> string" where
  "JoinHostPort host port =
     (if CHR '':'' \<in> set host then ''['' @ host @ '']:'' @ port else host @ '':'' @ port)"

section \<open>The collaborators: transport, file subsystem, local files\<close>

text \<open>
  A resource is something that stays open until its \<open>Close\<close> is called: a local file
  handle, the file-subsystem (SFTP) client, a remote file handle, a session.
\<close>

datatype resource =
    LocalFile path
  | SftpClient
  | RemoteFile path
  | Session

text \<open>What the collaborators were asked to do, in the order of the calls.\<close>

datatype event =
    Dial string string
  | Acquire resource
  | Failed resource error
  | Release resource
  | Exec string
  | Copy "error option"
  | Sync path "error option"

text \<open>
  The world: the file system of the local machine, the file system of the server, the
  resources that are open, and the log of calls. The server may be the local machine
  itself (a connection to the same host): then \<open>shared_fs\<close> holds, a remote path names
  the local file of that path, and \<open>remote_fs\<close> is not used.
\<close>

record world =
  local_fs :: "path \<rightharpoonup> bytes"
  remote_fs :: "path \<rightharpoonup> bytes"
  shared_fs :: bool
  held :: "resource list"
  trace :: "event list"

text \<open>What the remote process started for a command line does.\<close>

datatype process =
    Exits nat bytes
  | Breaks string bytes
  | Panics string

datatype side = ReadSide | WriteSide

text \<open>
  The faults of one call of a function of the package. \<open>None\<close> is no fault. A copy fault
  \<open>(n, s, m)\<close> stops the copy after \<open>n\<close> bytes with message \<open>m\<close>, on the reading or on
  the writing side. A short copy \<open>n\<close> ends the copy after \<open>n\<close> bytes and reports no error.
\<close>

record env =
  dial_fault :: "string option"
  session_fault :: "string option"
  remote_process :: "string \<Rightarrow> process"
  local_fault :: "string option"
  sftp_fault :: "string option"
  remote_fault :: "string option"
  copy_fault :: "(nat \<times> side \<times> string) option"
  copy_short :: "nat option"
  sync_fault :: "string option"
  close_fault :: "resource \<Rightarrow> string option"

definition log :: "event \<Rightarrow> world \<Rightarrow> world" where
  "log ev w = w\<lparr>trace := trace w @ [ev]\<rparr>"

definition acquire :: "resource \<Rightarrow> world \<Rightarrow> world" where
  "acquire h w = log (Acquire h) (w\<lparr>held := h # held w\<rparr>)"

definition io_error :: "resource \<Rightarrow> string \<Rightarrow> error" where
  "io_error h m =
     (case h of
        LocalFile p \<Rightarrow> LocalIOError m
      | RemoteFile p \<Rightarrow> RemoteIOError m
      | SftpClient \<Rightarrow> ChannelError m
      | Session \<Rightarrow> SessionError m)"

text \<open>\<open>Close\<close> of any resource: the resource is gone even when \<open>Close\<close> reports an error.\<close>

definition Close :: "env \<Rightarrow> world \<Rightarrow> resource \<Rightarrow> error option \<times> world" where
  "Close ev w h =
     (map_option (io_error h) (close_fault ev h),
      log (Release h) (w\<lparr>held := remove1 h (held w)\<rparr>))"

text \<open>\<open>os.Open\<close>: opens an existing file for reading.\<close>

definition os_Open :: "env \<Rightarrow> world \<Rightarrow> path \<Rightarrow> (error + resource) \<times> world" where
  "os_Open ev w p =
     (case local_fault ev of
        Some m \<Rightarrow> (Inl (LocalIOError m), log (Failed (LocalFile p) (LocalIOError m)) w)
      | None \<Rightarrow>
          (case local_fs w p of
             None \<Rightarrow> (Inl (LocalIOError ''no such file or directory''),
                       log (Failed (LocalFile p) (LocalIOError ''no such file or directory'')) w)
           | Some bs \<Rightarrow> (Inr (LocalFile p), acquire (LocalFile p) w)))"

text \<open>\<open>os.Create\<close>: creates the file, or truncates it when it exists.\<close>

definition os_Create :: "env \<Rightarrow> world \<Rightarrow> path \<Rightarrow> (error + resource) \<times> world" where
  "os_Create ev w p =
     (case local_fault ev of
        Some m \<Rightarrow> (Inl (LocalIOError m), log (Failed (LocalFile p) (LocalIOError m)) w)
      | None \<Rightarrow> (Inr (LocalFile p), acquire (LocalFile p) (w\<lparr>local_fs := (local_fs w)(p \<mapsto> [])\<rparr>)))"

text \<open>\<open>sftp.NewClient\<close> on the connection.\<close>

definition sftp_NewClient :: "env \<Rightarrow> world \<Rightarrow> (error + resource) \<times> world" where
  "sftp_NewClient ev w =
     (case sftp_fault ev of
        Some m \<Rightarrow> (Inl (ChannelError m), log (Failed SftpClient (ChannelError m)) w)
      | None \<Rightarrow> (Inr SftpClient, acquire SftpClient w))"

text \<open>The files of the server, and storing one of them.\<close>

definition remote_files :: "world \<Rightarrow> path \<rightharpoonup> bytes" where
  "remote_files w = (if shared_fs w then local_fs w else remote_fs w)"

definition remote_put :: "path \<Rightarrow> bytes \<Rightarrow> world \<Rightarrow> world" where
  "remote_put p bs w =
     (if shared_fs w then w\<lparr>local_fs := (local_fs w)(p \<mapsto> bs)\<rparr>
      else w\<lparr>remote_fs := (remote_fs w)(p \<mapsto> bs)\<rparr>)"

text \<open>\<open>ftp.Create\<close>: creates the remote file, or truncates it when it exists.\<close>

definition ftp_Create :: "env \<Rightarrow> world \<Rightarrow> resource \<Rightarrow> path \<Rightarrow> (error + resource) \<times> world" where
  "ftp_Create ev w ftp p =
     (case remote_fault ev of
        Some m \<Rightarrow> (Inl (RemoteIOError m), log (Failed (RemoteFile p) (RemoteIOError m)) w)
      | None \<Rightarrow> (Inr (RemoteFile p), acquire (RemoteFile p) (remote_put p [] w)))"

text \<open>\<open>ftp.Open\<close>: opens an existing remote file for reading.\<close>

definition ftp_Open :: "env \<Rightarrow> world \<Rightarrow> resource \<Rightarrow> path \<Rightarrow> (error + resource) \<times> world" where
  "ftp_Open ev w ftp p =
     (case remote_fault ev of
        Some m \<Rightarrow> (Inl (RemoteIOError m), log (Failed (RemoteFile p) (RemoteIOError m)) w)
      | None \<Rightarrow>
          (case remote_files w p of
             None \<Rightarrow> (Inl (RemoteIOError ''file does not exist''),
                       log (Failed (RemoteFile p) (RemoteIOError ''file does not exist'')) w)
           | Some bs \<Rightarrow> (Inr (RemoteFile p), acquire (RemoteFile p) w)))"

text \<open>Reading a handle from its start to the end of the file; writing from offset 0.\<close>

definition read_all :: "world \<Rightarrow> resource \<Rightarrow> bytes option" where
  "read_all w h =
     (case h of
        LocalFile p \<Rightarrow> local_fs w p
      | RemoteFile p \<Rightarrow> remote_files w p
      | SftpClient \<Rightarrow> None
      | Session \<Rightarrow> None)"

definition overwrite :: "bytes \<Rightarrow> bytes option \<Rightarrow> bytes" where
  "overwrite bs old = (case old of None \<Rightarrow> bs | Some cs \<Rightarrow> bs @ drop (length bs) cs)"

definition write_all :: "world \<Rightarrow> resource \<Rightarrow> bytes \<Rightarrow> world" where
  "write_all w h bs =
     (case h of
        LocalFile p \<Rightarrow> w\<lparr>local_fs := (local_fs w)(p \<mapsto> overwrite bs (local_fs w p))\<rparr>
      | RemoteFile p \<Rightarrow> remote_put p (overwrite bs (remote_files w p)) w
      | SftpClient \<Rightarrow> w
      | Session \<Rightarrow> w)"

text \<open>
  \<open>io.Copy dst src\<close>: copies until the end of \<open>src\<close> or the first error. On an error the
  bytes copied so far stay in \<open>dst\<close>. The copy may also end early and report no error,
  with only the first bytes in \<open>dst\<close>. The byte count \<open>io.Copy\<close> also returns is dropped
  by both callers and is not modelled. The event \<open>Copy\<close> records the error returned.
\<close>

definition io_Copy :: "env \<Rightarrow> world \<Rightarrow> resource \<Rightarrow> resource \<Rightarrow> error option \<times> world" where
  "io_Copy ev w dst src =
     (case read_all w src of
        None \<Rightarrow> (Some (io_error src ''bad file handle''),
                  log (Copy (Some (io_error src ''bad file handle''))) w)
      | Some bs \<Rightarrow>
          (case copy_fault ev of
             None \<Rightarrow>
               (case copy_short ev of
                  None \<Rightarrow> (None, log (Copy None) (write_all w dst bs))
                | Some n \<Rightarrow> (None, log (Copy None) (write_all w dst (take n bs))))
           | Some (n, s, m) \<Rightarrow>
               (Some (io_error (if s = ReadSide then src else dst) m),
                log (Copy (Some (io_error (if s = ReadSide then src else dst) m)))
                  (write_all w dst (take n bs)))))"

text \<open>\<open>File.Sync\<close>: the durability flush of a local file.\<close>

definition File_Sync :: "env \<Rightarrow> world \<Rightarrow> resource \<Rightarrow> error option \<times> world" where
  "File_Sync ev w h =
     (case h of
        LocalFile p \<Rightarrow>
          (map_option DurabilityError (sync_fault ev),
           log (Sync p (map_option DurabilityError (sync_fault ev))) w)
      | RemoteFile p \<Rightarrow> (Some (DurabilityError ''not a local file''), w)
      | SftpClient \<Rightarrow> (Some (DurabilityError ''not a local file''), w)
      | Session \<Rightarrow> (Some (DurabilityError ''not a local file''), w))"

text \<open>\<open>ssh.Dial\<close> and \<open>Client.NewSession\<close>.\<close>

definition ssh_Dial :: "env \<Rightarrow> world \<Rightarrow> string \<Rightarrow> string \<Rightarrow> 'auth ClientConfig \<Rightarrow> error option \<times> world" where
  "ssh_Dial ev w network address config =
     (map_option DialError (dial_fault ev), log (Dial network address) w)"

definition NewSession :: "env \<Rightarrow> world \<Rightarrow> (error + resource) \<times> world" where
  "NewSession ev w =
     (case session_fault ev of
        Some m \<Rightarrow> (Inl (SessionError m), log (Failed Session (SessionError m)) w)
      | None \<Rightarrow> (Inr Session, acquire Session w))"

text \<open>
  A function of the package either returns or panics. A Go byte slice may be nil:
  \<open>None\<close> is nil.
\<close>

datatype 'a outcome = Return 'a | Panic string

text \<open>
  \<open>Session.CombinedOutput\<close> of the transport library: it runs the command with one buffer
  for both output streams and returns the buffer's bytes with the error of the run. A
  buffer nothing was written to returns nil. A non-zero exit status is an \<open>ExitError\<close>.
\<close>

definition Buffer_Bytes :: "bytes \<Rightarrow> bytes option" where
  "Buffer_Bytes bs = (if bs = [] then None else Some bs)"

definition slice_bytes :: "bytes option \<Rightarrow> bytes" where
  "slice_bytes s = (case s of None \<Rightarrow> [] | Some bs \<Rightarrow> bs)"

definition CombinedOutput ::
  "env \<Rightarrow> world \<Rightarrow> resource \<Rightarrow> string \<Rightarrow> (bytes option \<times> error option) outcome \<times> world" where
  "CombinedOutput ev w sess cmd =
     (case remote_process ev cmd of
        Exits status out \<Rightarrow>
          (Return (Buffer_Bytes out, if status = 0 then None else Some (ExitError status)),
           log (Exec cmd) w)
      | Breaks m out \<Rightarrow> (Return (Buffer_Bytes out, Some (RunError m)), log (Exec cmd) w)
      | Panics m \<Rightarrow> (Panic m, log (Exec cmd) w))"

section \<open>The functions of the package\<close>

text \<open>
  \<open>NewClient\<close>: dials \<open>JoinHostPort(c.Addr, Sprint(c.Port))\<close> with the configuration's client
  configuration. The result keeps the configuration.
\<close>

definition NewClient :: "env \<Rightarrow> world \<Rightarrow> 'auth Config \<Rightarrow> (error + 'auth Config) \<times> world" where
  "NewClient ev w c =
     (case ssh_Dial ev w (Protocol c) (JoinHostPort (Addr c) (Sprint (Port c))) (ClientConfig c) of
        (Some e, w1) \<Rightarrow> (Inl e, w1)
      | (None, w1) \<Rightarrow> (Inr c, w1))"

text \<open>
  \<open>Run\<close>. The deferred \<open>sess.Close()\<close> runs when the function is left after the \<open>defer\<close>
  statement, by a return or by a panic; its result is dropped.
\<close>

definition Run ::
  "env \<Rightarrow> world \<Rightarrow> string \<Rightarrow> (bytes option \<times> error option) outcome \<times> world" where
  "Run ev w cmd =
     (case NewSession ev w of
        (Inl err, w1) \<Rightarrow> (Return (None, Some err), w1)
      | (Inr sess, w1) \<Rightarrow>
          (case CombinedOutput ev w1 sess cmd of
             (res, w2) \<Rightarrow> (res, snd (Close ev w2 sess))))"

text \<open>
  \<open>Upload\<close>. Deferred calls run last-in first-out, so each \<open>defer\<close> encloses the rest of
  the body: the inner \<open>case\<close> is the rest of the function, the \<open>Close\<close> around it the
  deferred call.
\<close>

definition Upload :: "env \<Rightarrow> world \<Rightarrow> path \<Rightarrow> path \<Rightarrow> error option \<times> world" where
  "Upload ev w localPath remotePath =
     (case os_Open ev w localPath of
        (Inl err, w1) \<Rightarrow> (Some err, w1)
      | (Inr local, w1) \<Rightarrow>
          (case
             (case sftp_NewClient ev w1 of
                (Inl err, w2) \<Rightarrow> (Some err, w2)
              | (Inr ftp, w2) \<Rightarrow>
                  (case
                     (case ftp_Create ev w2 ftp remotePath of
                        (Inl err, w3) \<Rightarrow> (Some err, w3)
                      | (Inr remote, w3) \<Rightarrow>
                          (case io_Copy ev w3 remote local of
                             (err, w4) \<Rightarrow> (err, snd (Close ev w4 remote))))
                   of (err, w5) \<Rightarrow> (err, snd (Close ev w5 ftp))))
           of (err, w6) \<Rightarrow> (err, snd (Close ev w6 local))))"

text \<open>\<open>Download\<close>: as \<open>Upload\<close>, the other way round, and \<open>local.Sync()\<close> after a copy without error.\<close>

definition Download :: "env \<Rightarrow> world \<Rightarrow> path \<Rightarrow> path \<Rightarrow> error option \<times> world" where
  "Download ev w remotePath localPath =
     (case os_Create ev w localPath of
        (Inl err, w1) \<Rightarrow> (Some err, w1)
      | (Inr local, w1) \<Rightarrow>
          (case
             (case sftp_NewClient ev w1 of
                (Inl err, w2) \<Rightarrow> (Some err, w2)
              | (Inr ftp, w2) \<Rightarrow>
                  (case
                     (case ftp_Open ev w2 ftp remotePath of
                        (Inl err, w3) \<Rightarrow> (Some err, w3)
                      | (Inr remote, w3) \<Rightarrow>
                          (case
                             (case io_Copy ev w3 local remote of
                                (Some err, w4) \<Rightarrow> (Some err, w4)
                              | (None, w4) \<Rightarrow> File_Sync ev w4 local)
                           of (err, w5) \<Rightarrow> (err, snd (Close ev w5 remote))))
                   of (err, w6) \<Rightarrow> (err, snd (Close ev w6 ftp))))
           of (err, w7) \<Rightarrow> (err, snd (Close ev w7 local))))"

text \<open>The calls a function made: the part of the log after the world it started from.\<close>

definition calls :: "world \<Rightarrow> world \<Rightarrow> event list" where
  "calls w w' = drop (length (trace w)) (trace w')"

definition Upload_calls :: "env \<Rightarrow> world \<Rightarrow> path \<Rightarrow> path \<Rightarrow> event list" where
  "Upload_calls ev w localPath remotePath = calls w (snd (Upload ev w localPath remotePath))"

definition Download_calls :: "env \<Rightarrow> world \<Rightarrow> path \<Rightarrow> path \<Rightarrow> event list" where
  "Download_calls ev w remotePath localPath = calls w (snd (Download ev w remotePath localPath))"

definition Run_calls :: "env \<Rightarrow> world \<Rightarrow> string \<Rightarrow> event list" where
  "Run_calls ev w cmd = calls w (snd (Run ev w cmd))"

text \<open>
  Modelled from the spec: \<open>DefaultKnownHosts()\<close>, which \<open>NewConfig\<close> calls, is not in
  \<open>client.go\<close>. The spec makes an absent trust-verification callback a configuration
  error; accordingly the function is taken to return a callback whenever it returns no
  error.
\<close>

definition DefaultKnownHosts_contract :: "HostKeyCallback option \<times> error option \<Rightarrow> bool" where
  "DefaultKnownHosts_contract known_hosts =
     (case known_hosts of (callback, err) \<Rightarrow> err = None \<longrightarrow> callback \<noteq> None)"

subsection \<open>Concrete worlds and environments\<close>

definition no_faults :: env where
  "no_faults =
     \<lparr>dial_fault = None, session_fault = None, remote_process = (\<lambda>cmd. Exits 0 []),
      local_fault = None, sftp_fault = None, remote_fault = None, copy_fault = None,
      copy_short = None, sync_fault = None, close_fault = (\<lambda>h. None)\<rparr>"

definition empty_world :: world where
  "empty_world =
     \<lparr>local_fs = Map.empty, remote_fs = Map.empty, shared_fs = False, held = [], trace = []\<rparr>"

text \<open>The four bytes of \<open>data\<close>.\<close>

definition data :: bytes where
  "data = [100, 97, 116, 97]"

definition local_world :: world where
  "local_world = empty_world\<lparr>local_fs := [''/tmp/a.txt'' \<mapsto> data, ''/tmp/empty'' \<mapsto> []]\<rparr>"

definition remote_world :: world where
  "remote_world = empty_world\<lparr>remote_fs := [''/remote/a.txt'' \<mapsto> data]\<rparr>"

text \<open>The local machine connected to itself.\<close>

definition shared_world :: world where
  "shared_world = local_world\<lparr>shared_fs := True\<rparr>"

definition accept_all :: HostKeyCallback where
  "accept_all hostname remote key = None"

section \<open>Properties\<close>

lemmas prims = os_Open_def os_Create_def sftp_NewClient_def ftp_Create_def ftp_Open_def
  io_Copy_def File_Sync_def Close_def NewSession_def CombinedOutput_def ssh_Dial_def
  log_def acquire_def calls_def read_all_def write_all_def io_error_def overwrite_def
  remote_files_def remote_put_def

lemmas examples = no_faults_def empty_world_def data_def accept_all_def local_world_def
  remote_world_def shared_world_def

lemmas steps = os_Open_def os_Create_def sftp_NewClient_def ftp_Create_def ftp_Open_def
  io_Copy_def File_Sync_def

subsection \<open>What each primitive leaves alone\<close>

lemma log_fields:
  "trace (log e w) = trace w @ [e]" "held (log e w) = held w" "shared_fs (log e w) = shared_fs w"
  "local_fs (log e w) = local_fs w" "remote_fs (log e w) = remote_fs w"
  by (simp_all add: log_def)

lemma acquire_fields:
  "trace (acquire h w) = trace w @ [Acquire h]" "held (acquire h w) = h # held w"
  "shared_fs (acquire h w) = shared_fs w"
  "local_fs (acquire h w) = local_fs w" "remote_fs (acquire h w) = remote_fs w"
  by (simp_all add: acquire_def log_def)

lemma remote_put_fields:
  "trace (remote_put p bs w) = trace w" "held (remote_put p bs w) = held w"
  "shared_fs (remote_put p bs w) = shared_fs w"
  by (simp_all add: remote_put_def)

lemma write_all_fields:
  "trace (write_all w h bs) = trace w" "held (write_all w h bs) = held w"
  "shared_fs (write_all w h bs) = shared_fs w"
  by (simp_all add: write_all_def remote_put_fields split: resource.splits)

lemma Close_fields:
  "trace (snd (Close ev w h)) = trace w @ [Release h]"
  "held (snd (Close ev w h)) = remove1 h (held w)"
  "shared_fs (snd (Close ev w h)) = shared_fs w"
  "local_fs (snd (Close ev w h)) = local_fs w" "remote_fs (snd (Close ev w h)) = remote_fs w"
  by (simp_all add: Close_def log_def)

lemmas frame = log_fields acquire_fields remote_put_fields write_all_fields Close_fields

subsection \<open>Configuration\<close>

text \<open>
  C1. The claim: the \<open>Port\<close> of the configuration is the port handed to \<open>NewConfig\<close>. The
  code writes the constant 22 into the field and never reads its parameter \<open>port\<close>: asked
  for port 2222 of \<open>example.org\<close>, \<open>NewConfig\<close> answers with port 22, and \<open>NewClient\<close> then
  dials \<open>example.org:22\<close>.
\<close>

theorem NewConfig_ignores_port:
  "\<exists>cfg. NewConfig initial_globals (Some accept_all, None) ''root'' ''example.org'' 2222 () = Inr cfg
     \<and> Port cfg = 22 \<and> Port cfg \<noteq> 2222
     \<and> calls empty_world (snd (NewClient no_faults empty_world cfg)) = [Dial ''tcp'' ''example.org:22'']"
  by (simp add: NewConfig_def NewClient_def prims examples JoinHostPort_def Sprint_def
      Sprint_nat.simps digit_char_def)

text \<open>
  C7. A configuration that \<open>NewConfig\<close> returns has protocol \<open>tcp\<close>, the timeout that
  \<open>DefaultTimeout\<close> holds at the call, and a client configuration with the user and the
  authentication method of the call. \<open>DefaultTimeout\<close> starts at 20 seconds, a second
  being \<open>10^9\<close> nanoseconds.
\<close>

theorem NewConfig_defaults:
  assumes "NewConfig g known_hosts user addr port auth = Inr cfg"
  shows "Protocol cfg = ''tcp'' \<and> Timeout (ClientConfig cfg) = DefaultTimeout g
     \<and> User (ClientConfig cfg) = user \<and> ClientAuth (ClientConfig cfg) = auth \<and> Auth cfg = auth
     \<and> DefaultTimeout initial_globals = 20 * Second \<and> unat Second = 10 ^ 9"
  using assms
  by (auto simp: NewConfig_def initial_globals_def Second_def split: prod.splits option.splits)

theorem NewConfig_defaults_witness:
  "\<exists>cfg. NewConfig initial_globals (Some accept_all, None) ''root'' ''example.org'' 2222 [''key''] = Inr cfg
     \<and> Protocol cfg = ''tcp'' \<and> Timeout (ClientConfig cfg) = 20000000000
     \<and> User (ClientConfig cfg) = ''root'' \<and> ClientAuth (ClientConfig cfg) = [''key'']"
proof -
  obtain cfg where c:
    "NewConfig initial_globals (Some accept_all, None) ''root'' ''example.org'' 2222 [''key''] = Inr cfg"
    by (simp add: NewConfig_def)
  from NewConfig_defaults [OF c] c show ?thesis
    by (simp add: Second_def)
qed

text \<open>
  C8. When \<open>DefaultKnownHosts\<close> reports an error, \<open>NewConfig\<close> returns that error and no
  configuration. A configuration that \<open>NewConfig\<close> returns carries the callback that
  \<open>DefaultKnownHosts\<close> returned, put there when the configuration is built, and that
  callback is not nil.
\<close>

theorem NewConfig_requires_callback:
  assumes "DefaultKnownHosts_contract known_hosts"
  shows "(\<forall>e. snd known_hosts = Some e \<longrightarrow> NewConfig g known_hosts user addr port auth = Inl e)
     \<and> (\<forall>cfg. NewConfig g known_hosts user addr port auth = Inr cfg \<longrightarrow>
           snd known_hosts = None
         \<and> HostKeyCallback (ClientConfig cfg) = fst known_hosts
         \<and> HostKeyCallback (ClientConfig cfg) \<noteq> None)"
  using assms
  by (auto simp: NewConfig_def DefaultKnownHosts_contract_def split: prod.splits option.splits)

theorem NewConfig_requires_callback_witness:
  "DefaultKnownHosts_contract (None, Some (KnownHostsError ''no home directory''))
   \<and> NewConfig initial_globals (None, Some (KnownHostsError ''no home directory'')) ''root'' ''example.org'' 22 ()
       = Inl (KnownHostsError ''no home directory'')
   \<and> DefaultKnownHosts_contract (Some accept_all, None)
   \<and> (\<exists>cfg. NewConfig initial_globals (Some accept_all, None) ''root'' ''example.org'' 22 () = Inr cfg
         \<and> HostKeyCallback (ClientConfig cfg) = Some accept_all)"
proof -
  have a: "DefaultKnownHosts_contract (None, Some (KnownHostsError ''no home directory''))"
    by (simp add: DefaultKnownHosts_contract_def)
  have b: "DefaultKnownHosts_contract (Some accept_all, None)"
    by (simp add: DefaultKnownHosts_contract_def)
  obtain cfg where c:
    "NewConfig initial_globals (Some accept_all, None) ''root'' ''example.org'' 22 () = Inr cfg"
    by (simp add: NewConfig_def)
  from NewConfig_requires_callback [OF a, of initial_globals "''root''" "''example.org''" 22 "()"]
    NewConfig_requires_callback [OF b, of initial_globals "''root''" "''example.org''" 22 "()"]
    a b c
  show ?thesis by simp
qed

subsection \<open>Running a command\<close>

text \<open>
  C3. When \<open>Run\<close> has opened a session, the calls it makes are: open the session, run the
  command, close the session; the session is no longer held when \<open>Run\<close> is left, whether
  the command's output was collected with or without an error or the collection
  panicked, in which case the panic goes on to the caller. When the session cannot be
  opened, \<open>Run\<close> returns a nil output and the error of the opening.
\<close>

theorem Run_closes_session:
  "(\<forall>sess w1. NewSession ev w = (Inr sess, w1) \<longrightarrow>
        Run_calls ev w cmd = [Acquire sess, Exec cmd, Release sess]
      \<and> held (snd (Run ev w cmd)) = held w
      \<and> (\<forall>m. remote_process ev cmd = Panics m \<longrightarrow> fst (Run ev w cmd) = Panic m))
   \<and> (\<forall>e w1. NewSession ev w = (Inl e, w1) \<longrightarrow>
        Run ev w cmd = (Return (None, Some e), w1)
      \<and> held w1 = held w
      \<and> Run_calls ev w cmd = [Failed Session e])"
  by (auto simp add: Run_calls_def Run_def prims
      split: option.splits prod.splits sum.splits process.splits)

theorem Run_closes_session_witness:
  "NewSession (no_faults\<lparr>remote_process := (\<lambda>cmd. Panics ''nil pointer'')\<rparr>) empty_world
      = (Inr Session, acquire Session empty_world)
   \<and> Run_calls (no_faults\<lparr>remote_process := (\<lambda>cmd. Panics ''nil pointer'')\<rparr>) empty_world ''ls''
      = [Acquire Session, Exec ''ls'', Release Session]
   \<and> held (snd (Run (no_faults\<lparr>remote_process := (\<lambda>cmd. Panics ''nil pointer'')\<rparr>) empty_world ''ls'')) = []
   \<and> fst (Run (no_faults\<lparr>remote_process := (\<lambda>cmd. Panics ''nil pointer'')\<rparr>) empty_world ''ls'')
      = Panic ''nil pointer''
   \<and> NewSession (no_faults\<lparr>session_fault := Some ''channel refused''\<rparr>) empty_world
      = (Inl (SessionError ''channel refused''),
         log (Failed Session (SessionError ''channel refused'')) empty_world)
   \<and> fst (Run (no_faults\<lparr>session_fault := Some ''channel refused''\<rparr>) empty_world ''ls'')
      = Return (None, Some (SessionError ''channel refused''))"
proof -
  let ?p = "no_faults\<lparr>remote_process := (\<lambda>cmd. Panics ''nil pointer'')\<rparr>"
  let ?s = "no_faults\<lparr>session_fault := Some ''channel refused''\<rparr>"
  have a: "NewSession ?p empty_world = (Inr Session, acquire Session empty_world)"
    by (simp add: NewSession_def no_faults_def)
  have b: "remote_process ?p ''ls'' = Panics ''nil pointer''"
    by simp
  have c: "NewSession ?s empty_world
      = (Inl (SessionError ''channel refused''),
         log (Failed Session (SessionError ''channel refused'')) empty_world)"
    by (simp add: NewSession_def no_faults_def)
  have d: "held empty_world = []"
    by (simp add: empty_world_def)
  from Run_closes_session [of ?p empty_world "''ls''"] Run_closes_session [of ?s empty_world "''ls''"]
    a b c d
  show ?thesis by simp
qed

text \<open>
  C5. When the remote process of the command exits with a status other than 0, \<open>Run\<close>
  returns the error of that exit together with the bytes the process wrote.
\<close>

theorem Run_nonzero_exit_keeps_output:
  assumes "NewSession ev w = (Inr sess, w1)"
    and "remote_process ev cmd = Exits status out"
    and "status \<noteq> 0"
  shows "fst (Run ev w cmd) = Return (Buffer_Bytes out, Some (ExitError status))
     \<and> slice_bytes (Buffer_Bytes out) = out"
  using assms
  by (auto simp add: Run_def prims Buffer_Bytes_def slice_bytes_def
      split: option.splits prod.splits sum.splits process.splits)

theorem Run_nonzero_exit_keeps_output_witness:
  "fst (Run (no_faults\<lparr>remote_process := (\<lambda>cmd. Exits 2 data)\<rparr>) empty_world ''grep x y'')
     = Return (Some data, Some (ExitError 2))"
proof -
  let ?e = "no_faults\<lparr>remote_process := (\<lambda>cmd. Exits 2 data)\<rparr>"
  have a: "NewSession ?e empty_world = (Inr Session, acquire Session empty_world)"
    by (simp add: NewSession_def no_faults_def)
  have b: "remote_process ?e ''grep x y'' = Exits 2 data"
    by simp
  have c: "(2::nat) \<noteq> 0"
    by simp
  from Run_nonzero_exit_keeps_output [OF a b c] show ?thesis
    by (simp add: Buffer_Bytes_def data_def)
qed

subsection \<open>File transfer\<close>

lemma Upload_held: "held (snd (Upload ev w localPath remotePath)) = held w"
  by (simp add: Upload_def steps frame split: option.splits prod.splits sum.splits)

lemma Upload_balanced:
  "Acquire h \<in> set (Upload_calls ev w localPath remotePath) \<Longrightarrow>
   Release h \<in> set (Upload_calls ev w localPath remotePath)"
  by (auto simp add: Upload_calls_def calls_def Upload_def steps frame
      split: option.splits prod.splits sum.splits)

lemma Upload_local_fs:
  "(\<not> shared_fs w \<longrightarrow> local_fs (snd (Upload ev w localPath remotePath)) = local_fs w)
   \<and> (\<forall>p. p \<noteq> remotePath \<longrightarrow> local_fs (snd (Upload ev w localPath remotePath)) p = local_fs w p)"
  by (simp add: Upload_def steps frame write_all_def remote_put_def
      split: option.splits prod.splits sum.splits)

lemma Upload_create_fails:
  assumes "os_Open ev w localPath = (Inr local, w1)"
    and "sftp_NewClient ev w1 = (Inr ftp, w2)"
    and "ftp_Create ev w2 ftp remotePath = (Inl e, w3)"
  shows "fst (Upload ev w localPath remotePath) = Some e
     \<and> (\<exists>m. e = RemoteIOError m)
     \<and> local_fs (snd (Upload ev w localPath remotePath)) = local_fs w
     \<and> Upload_calls ev w localPath remotePath
         = [Acquire local, Acquire ftp, Failed (RemoteFile remotePath) e, Release ftp, Release local]"
  using assms
  by (auto simp add: Upload_calls_def calls_def Upload_def steps frame
      split: option.splits prod.splits sum.splits)



text \<open>
  C4. Whatever step of \<open>Upload\<close> fails, every resource it opened has been closed when it
  returns: the open resources are those from before the call. \<open>Upload\<close> leaves the local
  files as they were, except the one that the remote path names when the server is the
  local machine. When the remote file cannot be created, \<open>Upload\<close> returns the error of
  the creation, a remote I/O error, after closing the file-subsystem client and the
  local file, and every local file is as it was.
\<close>

theorem Upload_releases_resources:
  "held (snd (Upload ev w localPath remotePath)) = held w
   \<and> (\<forall>h. Acquire h \<in> set (Upload_calls ev w localPath remotePath) \<longrightarrow>
            Release h \<in> set (Upload_calls ev w localPath remotePath))
   \<and> (\<not> shared_fs w \<longrightarrow> local_fs (snd (Upload ev w localPath remotePath)) = local_fs w)
   \<and> (\<forall>p. p \<noteq> remotePath \<longrightarrow> local_fs (snd (Upload ev w localPath remotePath)) p = local_fs w p)
   \<and> (\<forall>local w1 ftp w2 e w3.
         os_Open ev w localPath = (Inr local, w1)
       \<and> sftp_NewClient ev w1 = (Inr ftp, w2)
       \<and> ftp_Create ev w2 ftp remotePath = (Inl e, w3) \<longrightarrow>
           fst (Upload ev w localPath remotePath) = Some e
         \<and> (\<exists>m. e = RemoteIOError m)
         \<and> local_fs (snd (Upload ev w localPath remotePath)) = local_fs w
         \<and> Upload_calls ev w localPath remotePath
             = [Acquire local, Acquire ftp, Failed (RemoteFile remotePath) e, Release ftp, Release local])"
proof (intro conjI)
  show "held (snd (Upload ev w localPath remotePath)) = held w"
    by (rule Upload_held)
  show "\<forall>h. Acquire h \<in> set (Upload_calls ev w localPath remotePath) \<longrightarrow>
            Release h \<in> set (Upload_calls ev w localPath remotePath)"
    using Upload_balanced by blast
  show "\<not> shared_fs w \<longrightarrow> local_fs (snd (Upload ev w localPath remotePath)) = local_fs w"
    using Upload_local_fs by blast
  show "\<forall>p. p \<noteq> remotePath \<longrightarrow> local_fs (snd (Upload ev w localPath remotePath)) p = local_fs w p"
    using Upload_local_fs by blast
  show "\<forall>local w1 ftp w2 e w3.
         os_Open ev w localPath = (Inr local, w1)
       \<and> sftp_NewClient ev w1 = (Inr ftp, w2)
       \<and> ftp_Create ev w2 ftp remotePath = (Inl e, w3) \<longrightarrow>
           fst (Upload ev w localPath remotePath) = Some e
         \<and> (\<exists>m. e = RemoteIOError m)
         \<and> local_fs (snd (Upload ev w localPath remotePath)) = local_fs w
         \<and> Upload_calls ev w localPath remotePath
             = [Acquire local, Acquire ftp, Failed (RemoteFile remotePath) e, Release ftp, Release local]"
    by (intro allI impI, elim conjE, rule Upload_create_fails)
qed

theorem Upload_releases_resources_witness:
  "fst (Upload (no_faults\<lparr>remote_fault := Some ''no such directory''\<rparr>) local_world
         ''/tmp/a.txt'' ''/missing/a.txt'') = Some (RemoteIOError ''no such directory'')
   \<and> Upload_calls (no_faults\<lparr>remote_fault := Some ''no such directory''\<rparr>) local_world
         ''/tmp/a.txt'' ''/missing/a.txt''
      = [Acquire (LocalFile ''/tmp/a.txt''), Acquire SftpClient,
         Failed (RemoteFile ''/missing/a.txt'') (RemoteIOError ''no such directory''),
         Release SftpClient, Release (LocalFile ''/tmp/a.txt'')]
   \<and> held (snd (Upload (no_faults\<lparr>remote_fault := Some ''no such directory''\<rparr>) local_world
         ''/tmp/a.txt'' ''/missing/a.txt'')) = []
   \<and> local_fs (snd (Upload (no_faults\<lparr>remote_fault := Some ''no such directory''\<rparr>) local_world
         ''/tmp/a.txt'' ''/missing/a.txt'')) ''/tmp/a.txt'' = Some data"
proof -
  let ?e = "no_faults\<lparr>remote_fault := Some ''no such directory''\<rparr>"
  let ?w1 = "acquire (LocalFile ''/tmp/a.txt'') local_world"
  let ?w2 = "acquire SftpClient ?w1"
  let ?err = "RemoteIOError ''no such directory''"
  have a: "os_Open ?e local_world ''/tmp/a.txt'' = (Inr (LocalFile ''/tmp/a.txt''), ?w1)"
    by (simp add: os_Open_def examples)
  have b: "sftp_NewClient ?e ?w1 = (Inr SftpClient, ?w2)"
    by (simp add: sftp_NewClient_def examples)
  have c: "ftp_Create ?e ?w2 SftpClient ''/missing/a.txt''
      = (Inl ?err, log (Failed (RemoteFile ''/missing/a.txt'') ?err) ?w2)"
    by (simp add: ftp_Create_def examples)
  have d: "held local_world = []" "local_fs local_world ''/tmp/a.txt'' = Some data"
    "\<not> shared_fs local_world" "''/tmp/a.txt'' \<noteq> ''/missing/a.txt''"
    by (simp_all add: examples)
  from Upload_releases_resources [of ?e local_world "''/tmp/a.txt''" "''/missing/a.txt''"] a b c d
  show ?thesis by simp
qed

text \<open>
  C2. \<open>Download\<close> calls \<open>local.Sync()\<close> exactly when \<open>io.Copy\<close> ran and returned no
  error, and then returns what \<open>Sync\<close> returned. When \<open>io.Copy\<close> returns an error,
  \<open>Download\<close> returns that error, \<open>Sync\<close> is not called, and the error is not one of the
  flush.
\<close>

theorem Download_flush_iff_copy_ok:
  "((\<exists>p s. Sync p s \<in> set (Download_calls ev w remotePath localPath))
       \<longleftrightarrow> Copy None \<in> set (Download_calls ev w remotePath localPath))
   \<and> (Copy None \<in> set (Download_calls ev w remotePath localPath) \<longrightarrow>
         Sync localPath (fst (Download ev w remotePath localPath))
           \<in> set (Download_calls ev w remotePath localPath))
   \<and> (\<forall>e. Copy (Some e) \<in> set (Download_calls ev w remotePath localPath) \<longrightarrow>
         fst (Download ev w remotePath localPath) = Some e
       \<and> (\<forall>p s. Sync p s \<notin> set (Download_calls ev w remotePath localPath))
       \<and> (\<forall>m. e \<noteq> DurabilityError m))"
  by (auto simp add: Download_calls_def calls_def Download_def steps frame io_error_def
      split: option.splits prod.splits sum.splits)

theorem Download_flush_iff_copy_ok_witness:
  "Download_calls (no_faults\<lparr>copy_fault := Some (2, ReadSide, ''connection lost'')\<rparr>) remote_world
       ''/remote/a.txt'' ''/tmp/b.txt''
     = [Acquire (LocalFile ''/tmp/b.txt''), Acquire SftpClient, Acquire (RemoteFile ''/remote/a.txt''),
        Copy (Some (RemoteIOError ''connection lost'')),
        Release (RemoteFile ''/remote/a.txt''), Release SftpClient, Release (LocalFile ''/tmp/b.txt'')]
   \<and> fst (Download (no_faults\<lparr>copy_fault := Some (2, ReadSide, ''connection lost'')\<rparr>) remote_world
       ''/remote/a.txt'' ''/tmp/b.txt'') = Some (RemoteIOError ''connection lost'')
   \<and> Download_calls no_faults remote_world ''/remote/a.txt'' ''/tmp/b.txt''
     = [Acquire (LocalFile ''/tmp/b.txt''), Acquire SftpClient, Acquire (RemoteFile ''/remote/a.txt''),
        Copy None, Sync ''/tmp/b.txt'' None,
        Release (RemoteFile ''/remote/a.txt''), Release SftpClient, Release (LocalFile ''/tmp/b.txt'')]
   \<and> fst (Download no_faults remote_world ''/remote/a.txt'' ''/tmp/b.txt'') = None"
proof -
  let ?e = "no_faults\<lparr>copy_fault := Some (2, ReadSide, ''connection lost'')\<rparr>"
  have a: "Download_calls ?e remote_world ''/remote/a.txt'' ''/tmp/b.txt''
     = [Acquire (LocalFile ''/tmp/b.txt''), Acquire SftpClient, Acquire (RemoteFile ''/remote/a.txt''),
        Copy (Some (RemoteIOError ''connection lost'')),
        Release (RemoteFile ''/remote/a.txt''), Release SftpClient, Release (LocalFile ''/tmp/b.txt'')]"
    by (simp add: Download_calls_def Download_def prims examples)
  have b: "Download_calls no_faults remote_world ''/remote/a.txt'' ''/tmp/b.txt''
     = [Acquire (LocalFile ''/tmp/b.txt''), Acquire SftpClient, Acquire (RemoteFile ''/remote/a.txt''),
        Copy None, Sync ''/tmp/b.txt'' None,
        Release (RemoteFile ''/remote/a.txt''), Release SftpClient, Release (LocalFile ''/tmp/b.txt'')]"
    by (simp add: Download_calls_def Download_def prims examples)
  from Download_flush_iff_copy_ok [of ?e remote_world "''/remote/a.txt''" "''/tmp/b.txt''"]
    Download_flush_iff_copy_ok [of no_faults remote_world "''/remote/a.txt''" "''/tmp/b.txt''"]
    a b
  show ?thesis by simp
qed






end
